theory Spec2Isabelle
  imports Main
begin

section \<open>The tutorial notebook \<^verbatim>\<open>tutorials/17_vi_posteriors.ipynb\<close>\<close>

text \<open>
  The repository's source is one notebook. Its code is the sequential round loop

  \<^verbatim>\<open>
  num_rounds = 2
  x_o = torch.zeros(3,)

  posteriors = []
  proposal = prior

  for _ in range(num_rounds):
      theta, x = simulate_for_sbi(simulator, proposal, num_simulations=500)
      likelihood_estimator = inference.append_simulations(
          theta, x,
      ).train()
      potential_fn, theta_transform = likelihood_estimator_based_potential(
          likelihood_estimator, prior, x_o
      )

      posterior = VIPosterior(
          potential_fn, prior, "maf", theta_transform, vi_method="fKL",
      ).train()
      posteriors.append(posterior)
      proposal = posterior
  \<close>

  followed by the cell \<^verbatim>\<open>posterior_samples = posterior.sample((10000,), x=x_o)\<close>.
  (The cell under "Main syntax" shows the same loop without the list \<^verbatim>\<open>posteriors\<close>;
  it has no execution count and names nothing that is bound at that point. The
  model is of the cells that were run.)

  The functions it calls (\<^verbatim>\<open>simulate_for_sbi\<close>, \<^verbatim>\<open>SNLE.append_simulations\<close>,
  \<^verbatim>\<open>train\<close>, \<^verbatim>\<open>likelihood_estimator_based_potential\<close>, \<^verbatim>\<open>VIPosterior\<close>,
  \<^verbatim>\<open>sample\<close>) live in the library and are not part of the notebook. They are
  parameters of the model: a record of functions over
  \<^item> \<open>'v\<close>, the Python values (references to objects: tensors, estimators,
    posteriors); two variables hold the same object exactly when they hold equal
    references;
  \<^item> \<open>'w\<close>, the world the library works on (its heap, the random generator, the
    training data the inference object has accumulated);
  \<^item> \<open>'e\<close>, the exceptions the library may raise.
  A call either raises, leaving a world, or returns a value and a world.
  Library calls are taken to return; they see the values passed to them and the
  world, never the notebook's variable bindings.
\<close>

datatype 'e exn = NameError string | Raised 'e

type_synonym ('e, 'w, 'a) outcome = "('e exn \<times> 'w) + ('a \<times> 'w)"

record ('e, 'w, 'v) lib =
  torch_zeros :: "nat \<Rightarrow> 'v"
  simulate_for_sbi :: "'v \<Rightarrow> 'v \<Rightarrow> nat \<Rightarrow> 'w \<Rightarrow> ('e, 'w, 'v \<times> 'v) outcome"
  append_simulations :: "'v \<Rightarrow> 'v \<Rightarrow> 'v \<Rightarrow> 'w \<Rightarrow> ('e, 'w, 'v) outcome"
  train :: "'v \<Rightarrow> 'w \<Rightarrow> ('e, 'w, 'v) outcome"
  likelihood_estimator_based_potential ::
    "'v \<Rightarrow> 'v \<Rightarrow> 'v \<Rightarrow> 'w \<Rightarrow> ('e, 'w, 'v \<times> 'v) outcome"
  VIPosterior :: "'v \<Rightarrow> 'v \<Rightarrow> string \<Rightarrow> 'v \<Rightarrow> string \<Rightarrow> 'w \<Rightarrow> ('e, 'w, 'v) outcome"
  sample :: "'v \<Rightarrow> nat list \<Rightarrow> 'v \<Rightarrow> 'w \<Rightarrow> ('e, 'w, 'v) outcome"

text \<open>
  \<open>train L ob\<close> is the method call \<^verbatim>\<open>ob.train()\<close>, dispatched on its receiver: the
  notebook calls it on what \<^verbatim>\<open>append_simulations\<close> returned and on the object
  \<^verbatim>\<open>VIPosterior(...)\<close> constructed. \<open>sample L p shape xo\<close> is
  \<^verbatim>\<open>p.sample(shape, x=xo)\<close>.

  The notebook's global namespace. \<open>prior\<close>, \<open>simulator\<close> and \<open>inference\<close> are bound
  by the cells before the loop. A variable the loop binds is \<open>None\<close> while it is
  unbound; reading it then raises \<^verbatim>\<open>NameError\<close>. The variable \<^verbatim>\<open>x\<close> is the field
  \<open>x_var\<close>. The loop variable \<^verbatim>\<open>_\<close> is never read and is left out.
\<close>

record ('w, 'v) globals =
  world :: 'w
  prior :: 'v
  simulator :: 'v
  inference :: 'v
  num_rounds :: int
  x_o :: 'v
  posteriors :: "'v list"
  proposal :: 'v
  theta :: "'v option"
  x_var :: "'v option"
  likelihood_estimator :: "'v option"
  potential_fn :: "'v option"
  theta_transform :: "'v option"
  posterior :: "'v option"
  posterior_samples :: "'v option"

type_synonym ('e, 'w, 'v) run = "('e exn \<times> ('w, 'v) globals) + ('w, 'v) globals"

text \<open>
  A statement maps the namespace to \<open>Inr\<close> the namespace after it, or to \<open>Inl\<close> the
  exception raised together with the namespace at that moment. \<open>seq\<close> is \<^verbatim>\<open>;\<close>: an
  exception ends the block.
\<close>

definition seq ::
  "(('w, 'v) globals \<Rightarrow> ('e, 'w, 'v) run) \<Rightarrow> (('w, 'v) globals \<Rightarrow> ('e, 'w, 'v) run) \<Rightarrow>
   ('w, 'v) globals \<Rightarrow> ('e, 'w, 'v) run" where
  "seq f g s = (case f s of Inl failure \<Rightarrow> Inl failure | Inr s' \<Rightarrow> g s')"

text \<open>\<^verbatim>\<open>theta, x = simulate_for_sbi(simulator, proposal, num_simulations=500)\<close>\<close>

definition stmt_simulate :: "('e, 'w, 'v) lib \<Rightarrow> ('w, 'v) globals \<Rightarrow> ('e, 'w, 'v) run" where
  "stmt_simulate L s =
     (case simulate_for_sbi L (simulator s) (proposal s) 500 (world s) of
        Inl (e, w) \<Rightarrow> Inl (e, s\<lparr>world := w\<rparr>)
      | Inr ((th, xx), w) \<Rightarrow> Inr (s\<lparr>world := w, theta := Some th, x_var := Some xx\<rparr>))"

text \<open>\<^verbatim>\<open>likelihood_estimator = inference.append_simulations(theta, x).train()\<close>\<close>

definition stmt_train :: "('e, 'w, 'v) lib \<Rightarrow> ('w, 'v) globals \<Rightarrow> ('e, 'w, 'v) run" where
  "stmt_train L s =
     (case theta s of
        None \<Rightarrow> Inl (NameError ''theta'', s)
      | Some th \<Rightarrow>
         (case x_var s of
            None \<Rightarrow> Inl (NameError ''x'', s)
          | Some xx \<Rightarrow>
             (case append_simulations L (inference s) th xx (world s) of
                Inl (e, w) \<Rightarrow> Inl (e, s\<lparr>world := w\<rparr>)
              | Inr (ob, w) \<Rightarrow>
                 (case train L ob w of
                    Inl (e, w') \<Rightarrow> Inl (e, s\<lparr>world := w'\<rparr>)
                  | Inr (le, w') \<Rightarrow>
                      Inr (s\<lparr>world := w', likelihood_estimator := Some le\<rparr>)))))"

text \<open>
  \<^verbatim>\<open>potential_fn, theta_transform = likelihood_estimator_based_potential(
      likelihood_estimator, prior, x_o)\<close>
\<close>

definition stmt_potential :: "('e, 'w, 'v) lib \<Rightarrow> ('w, 'v) globals \<Rightarrow> ('e, 'w, 'v) run" where
  "stmt_potential L s =
     (case likelihood_estimator s of
        None \<Rightarrow> Inl (NameError ''likelihood_estimator'', s)
      | Some le \<Rightarrow>
         (case likelihood_estimator_based_potential L le (prior s) (x_o s) (world s) of
            Inl (e, w) \<Rightarrow> Inl (e, s\<lparr>world := w\<rparr>)
          | Inr ((pf, tt), w) \<Rightarrow>
              Inr (s\<lparr>world := w, potential_fn := Some pf, theta_transform := Some tt\<rparr>)))"

text \<open>
  \<^verbatim>\<open>posterior = VIPosterior(
      potential_fn, prior, "maf", theta_transform, vi_method="fKL").train()\<close>
\<close>

definition stmt_vi :: "('e, 'w, 'v) lib \<Rightarrow> ('w, 'v) globals \<Rightarrow> ('e, 'w, 'v) run" where
  "stmt_vi L s =
     (case potential_fn s of
        None \<Rightarrow> Inl (NameError ''potential_fn'', s)
      | Some pf \<Rightarrow>
         (case theta_transform s of
            None \<Rightarrow> Inl (NameError ''theta_transform'', s)
          | Some tt \<Rightarrow>
             (case VIPosterior L pf (prior s) ''maf'' tt ''fKL'' (world s) of
                Inl (e, w) \<Rightarrow> Inl (e, s\<lparr>world := w\<rparr>)
              | Inr (ob, w) \<Rightarrow>
                 (case train L ob w of
                    Inl (e, w') \<Rightarrow> Inl (e, s\<lparr>world := w'\<rparr>)
                  | Inr (p, w') \<Rightarrow> Inr (s\<lparr>world := w', posterior := Some p\<rparr>)))))"

text \<open>\<^verbatim>\<open>posteriors.append(posterior)\<close>\<close>

definition stmt_append :: "('w, 'v) globals \<Rightarrow> ('e, 'w, 'v) run" where
  "stmt_append s =
     (case posterior s of
        None \<Rightarrow> Inl (NameError ''posterior'', s)
      | Some p \<Rightarrow> Inr (s\<lparr>posteriors := posteriors s @ [p]\<rparr>))"

text \<open>\<^verbatim>\<open>proposal = posterior\<close>\<close>

definition stmt_rebind :: "('w, 'v) globals \<Rightarrow> ('e, 'w, 'v) run" where
  "stmt_rebind s =
     (case posterior s of
        None \<Rightarrow> Inl (NameError ''posterior'', s)
      | Some p \<Rightarrow> Inr (s\<lparr>proposal := p\<rparr>))"

text \<open>The body of the \<^verbatim>\<open>for\<close> loop: its six statements in order.\<close>

definition round_body :: "('e, 'w, 'v) lib \<Rightarrow> ('w, 'v) globals \<Rightarrow> ('e, 'w, 'v) run" where
  "round_body L =
     seq (stmt_simulate L) (seq (stmt_train L) (seq (stmt_potential L)
       (seq (stmt_vi L) (seq stmt_append stmt_rebind))))"

text \<open>\<^verbatim>\<open>for _ in range(n)\<close>: \<open>n\<close> runs of the body, ended by the first exception.\<close>

fun round_loop :: "('e, 'w, 'v) lib \<Rightarrow> nat \<Rightarrow> ('w, 'v) globals \<Rightarrow> ('e, 'w, 'v) run" where
  "round_loop L 0 s = Inr s"
| "round_loop L (Suc k) s =
     (case round_body L s of Inl failure \<Rightarrow> Inl failure | Inr s' \<Rightarrow> round_loop L k s')"

text \<open>
  The four assignments that open the cell, with the round count \<open>nr\<close> in the place
  of the literal \<^verbatim>\<open>2\<close>; \<^verbatim>\<open>range\<close> of a negative count is empty.
\<close>

definition cell_prelude :: "('e, 'w, 'v) lib \<Rightarrow> int \<Rightarrow> ('w, 'v) globals \<Rightarrow> ('w, 'v) globals" where
  "cell_prelude L nr s =
     s\<lparr>num_rounds := nr, x_o := torch_zeros L 3, posteriors := [], proposal := prior s\<rparr>"

definition rounds_cell_with ::
  "('e, 'w, 'v) lib \<Rightarrow> int \<Rightarrow> ('w, 'v) globals \<Rightarrow> ('e, 'w, 'v) run" where
  "rounds_cell_with L nr s =
     (let s1 = cell_prelude L nr s in round_loop L (nat (num_rounds s1)) s1)"

text \<open>The cell as the notebook has it.\<close>

definition rounds_cell :: "('e, 'w, 'v) lib \<Rightarrow> ('w, 'v) globals \<Rightarrow> ('e, 'w, 'v) run" where
  "rounds_cell L s = rounds_cell_with L 2 s"

text \<open>\<^verbatim>\<open>posterior_samples = posterior.sample((10000,), x=x_o)\<close>\<close>

definition sample_cell :: "('e, 'w, 'v) lib \<Rightarrow> ('w, 'v) globals \<Rightarrow> ('e, 'w, 'v) run" where
  "sample_cell L s =
     (case posterior s of
        None \<Rightarrow> Inl (NameError ''posterior'', s)
      | Some p \<Rightarrow>
         (case sample L p [10000] (x_o s) (world s) of
            Inl (e, w) \<Rightarrow> Inl (e, s\<lparr>world := w\<rparr>)
          | Inr (r, w) \<Rightarrow> Inr (s\<lparr>world := w, posterior_samples := Some r\<rparr>)))"

section \<open>A small library to run the loop on\<close>

text \<open>
  A deterministic stand-in for the library, used to run the cells on concrete inputs.
  Values are lists of numbers: a tensor is the list of its rows, an object is the list
  holding its handle. The world is a pair \<open>(k, c)\<close>: \<open>k\<close> is the next unused handle and
  \<open>c\<close> the training set the inference object has accumulated. Every call that
  builds an object hands out the next handle; \<open>simulate_for_sbi\<close> raises when the
  simulator is the empty value.
\<close>

definition demo_lib :: "(unit, nat \<times> (nat \<times> nat) list, nat list) lib" where
  "demo_lib =
     \<lparr>torch_zeros = (\<lambda>n. replicate n 0),
      simulate_for_sbi = (\<lambda>sim prop n (k, c).
         if sim = [] then Inl (Raised (), (k, c))
         else Inr ((replicate n k, replicate n (Suc k)), (k + 2, c))),
      append_simulations = (\<lambda>ob th xx (k, c). Inr (ob, (k, c @ zip th xx))),
      train = (\<lambda>ob (k, c). Inr ([k], (Suc k, c))),
      likelihood_estimator_based_potential = (\<lambda>le pr xo (k, c). Inr (([k], [Suc k]), (k + 2, c))),
      VIPosterior = (\<lambda>pf pr family tt vi_method (k, c). Inr ([k], (Suc k, c))),
      sample = (\<lambda>p shape xo (k, c). Inr ([k], (Suc k, c)))\<rparr>"

text \<open>The namespace as the cells before the loop leave it, and after one and two rounds.\<close>

definition demo_start :: "(nat \<times> (nat \<times> nat) list, nat list) globals" where
  "demo_start =
     \<lparr>world = (10, []), prior = [1], simulator = [2], inference = [3], num_rounds = 0,
      x_o = [], posteriors = [], proposal = [], theta = None, x_var = None,
      likelihood_estimator = None, potential_fn = None, theta_transform = None,
      posterior = None, posterior_samples = None\<rparr>"

definition demo_mid :: "(nat \<times> (nat \<times> nat) list, nat list) globals" where
  "demo_mid =
     \<lparr>world = (17, replicate 500 (10, 11)),
      prior = [1], simulator = [2], inference = [3], num_rounds = 2,
      x_o = [0, 0, 0], posteriors = [[16]], proposal = [16],
      theta = Some (replicate 500 10), x_var = Some (replicate 500 11),
      likelihood_estimator = Some [12], potential_fn = Some [13], theta_transform = Some [14],
      posterior = Some [16], posterior_samples = None\<rparr>"

definition demo_end :: "(nat \<times> (nat \<times> nat) list, nat list) globals" where
  "demo_end =
     \<lparr>world = (24, replicate 500 (10, 11) @ replicate 500 (17, 18)),
      prior = [1], simulator = [2], inference = [3], num_rounds = 2,
      x_o = [0, 0, 0], posteriors = [[16], [23]], proposal = [23],
      theta = Some (replicate 500 17), x_var = Some (replicate 500 18),
      likelihood_estimator = Some [19], potential_fn = Some [20], theta_transform = Some [21],
      posterior = Some [23], posterior_samples = None\<rparr>"

section \<open>The trainer's cumulative batch\<close>

text \<open>
  Modelled from the spec: the SimulationBatch of section 3, "ordered pairs (theta_i, x_i),
  owned by the Trainer". The type is the library's and is not among the sources.
\<close>

type_synonym ('t, 'x) SimulationBatch = "('t \<times> 'x) list"

text \<open>
  Modelled from the spec: the Sequential Estimator Trainer's \<^verbatim>\<open>append(batch)\<close> of
  section 4.2 (the library's \<^verbatim>\<open>SNLE.append_simulations\<close>, which is not among the
  sources): "append concatenates the new batch into the cumulative training set
  (order-preserving, no deduplication)".
\<close>

definition append_batch ::
  "('t, 'x) SimulationBatch \<Rightarrow> ('t, 'x) SimulationBatch \<Rightarrow> ('t, 'x) SimulationBatch" where
  "append_batch cumulative batch = cumulative @ batch"

text \<open>
  Modelled from the spec: rounds of \<^verbatim>\<open>append(batch)\<close> on the Trainer of section 4.2,
  one batch a round, in order.
\<close>

fun append_rounds ::
  "('t, 'x) SimulationBatch \<Rightarrow> ('t, 'x) SimulationBatch list \<Rightarrow> ('t, 'x) SimulationBatch" where
  "append_rounds cumulative [] = cumulative"
| "append_rounds cumulative (batch # batches) = append_rounds (append_batch cumulative batch) batches"

text \<open>
  Modelled from the spec: what the library's calls do to the batch the trainer holds.
  \<open>held w\<close> is the cumulative SimulationBatch of the inference object \<open>trainer\<close> in the
  world \<open>w\<close>, and \<open>pairs th xx\<close> the pairs the tensors \<open>th\<close> and \<open>xx\<close> stand for.
  \<^item> Section 4.1: the executor returns "n (theta, x) pairs" and has no "side effect
    beyond the draws".
  \<^item> Section 4.2: \<^verbatim>\<open>append\<close> concatenates the new batch.
  \<^item> Section 5: the cumulative SimulationBatch is "appended-only by the Trainer,
    read-only to all other components", so \<^verbatim>\<open>train\<close>, the potential and the
    variational posterior leave it as it is.
\<close>

definition trainer_contract ::
  "('e, 'w, 'v) lib \<Rightarrow> 'v \<Rightarrow> ('w \<Rightarrow> ('t, 'x) SimulationBatch) \<Rightarrow>
   ('v \<Rightarrow> 'v \<Rightarrow> ('t, 'x) SimulationBatch) \<Rightarrow> bool" where
  "trainer_contract L trainer held pairs \<longleftrightarrow>
     (\<forall>sim prop n w th xx w'.
        simulate_for_sbi L sim prop n w = Inr ((th, xx), w') \<longrightarrow>
        length (pairs th xx) = n \<and> held w' = held w) \<and>
     (\<forall>th xx w ob w'.
        append_simulations L trainer th xx w = Inr (ob, w') \<longrightarrow>
        held w' = append_batch (held w) (pairs th xx)) \<and>
     (\<forall>ob w r w'. train L ob w = Inr (r, w') \<longrightarrow> held w' = held w) \<and>
     (\<forall>le pr xo w r w'.
        likelihood_estimator_based_potential L le pr xo w = Inr (r, w') \<longrightarrow> held w' = held w) \<and>
     (\<forall>pf pr family tt vi_method w ob w'.
        VIPosterior L pf pr family tt vi_method w = Inr (ob, w') \<longrightarrow> held w' = held w)"

section \<open>Statements and blocks\<close>

lemma seq_Inr: "seq f g s = Inr s' \<longleftrightarrow> (\<exists>m. f s = Inr m \<and> g m = Inr s')"
  by (auto simp: seq_def split: sum.splits)

lemma seq_Inl: "seq f g s = Inl failure \<longleftrightarrow> f s = Inl failure \<or> (\<exists>m. f s = Inr m \<and> g m = Inl failure)"
  by (auto simp: seq_def split: sum.splits)

lemma stmt_simulate_Inr:
  "stmt_simulate L s = Inr s' \<longleftrightarrow>
     (\<exists>th xx w. simulate_for_sbi L (simulator s) (proposal s) 500 (world s) = Inr ((th, xx), w) \<and>
        s' = s\<lparr>world := w, theta := Some th, x_var := Some xx\<rparr>)"
  by (auto simp: stmt_simulate_def split: sum.splits prod.splits)

lemma stmt_train_Inr:
  "stmt_train L s = Inr s' \<longleftrightarrow>
     (\<exists>th xx ob w le w'. theta s = Some th \<and> x_var s = Some xx \<and>
        append_simulations L (inference s) th xx (world s) = Inr (ob, w) \<and>
        train L ob w = Inr (le, w') \<and>
        s' = s\<lparr>world := w', likelihood_estimator := Some le\<rparr>)"
  by (auto simp: stmt_train_def split: sum.splits prod.splits option.splits)

lemma stmt_potential_Inr:
  "stmt_potential L s = Inr s' \<longleftrightarrow>
     (\<exists>le pf tt w. likelihood_estimator s = Some le \<and>
        likelihood_estimator_based_potential L le (prior s) (x_o s) (world s) = Inr ((pf, tt), w) \<and>
        s' = s\<lparr>world := w, potential_fn := Some pf, theta_transform := Some tt\<rparr>)"
  by (auto simp: stmt_potential_def split: sum.splits prod.splits option.splits)

lemma stmt_vi_Inr:
  "stmt_vi L s = Inr s' \<longleftrightarrow>
     (\<exists>pf tt ob w p w'. potential_fn s = Some pf \<and> theta_transform s = Some tt \<and>
        VIPosterior L pf (prior s) ''maf'' tt ''fKL'' (world s) = Inr (ob, w) \<and>
        train L ob w = Inr (p, w') \<and>
        s' = s\<lparr>world := w', posterior := Some p\<rparr>)"
  by (auto simp: stmt_vi_def split: sum.splits prod.splits option.splits)

lemma stmt_append_Inr:
  "stmt_append s = Inr s' \<longleftrightarrow> (\<exists>p. posterior s = Some p \<and> s' = s\<lparr>posteriors := posteriors s @ [p]\<rparr>)"
  by (auto simp: stmt_append_def split: option.splits)

lemma stmt_rebind_Inr:
  "stmt_rebind s = Inr s' \<longleftrightarrow> (\<exists>p. posterior s = Some p \<and> s' = s\<lparr>proposal := p\<rparr>)"
  by (auto simp: stmt_rebind_def split: option.splits)

text \<open>A statement that raises leaves every variable as it was; only the world may differ.\<close>

lemma stmt_simulate_Inl:
  "stmt_simulate L s = Inl (e, sf) \<Longrightarrow> \<exists>w. sf = s\<lparr>world := w\<rparr>"
  by (auto simp: stmt_simulate_def split: sum.splits prod.splits)

lemma stmt_train_Inl:
  "stmt_train L s = Inl (e, sf) \<Longrightarrow> \<exists>w. sf = s\<lparr>world := w\<rparr>"
  by (auto simp: stmt_train_def split: sum.splits prod.splits option.splits intro: exI[of _ "world s"])

lemma stmt_potential_Inl:
  "stmt_potential L s = Inl (e, sf) \<Longrightarrow> \<exists>w. sf = s\<lparr>world := w\<rparr>"
  by (auto simp: stmt_potential_def split: sum.splits prod.splits option.splits intro: exI[of _ "world s"])

lemma stmt_vi_Inl:
  "stmt_vi L s = Inl (e, sf) \<Longrightarrow> \<exists>w. sf = s\<lparr>world := w\<rparr>"
  by (auto simp: stmt_vi_def split: sum.splits prod.splits option.splits intro: exI[of _ "world s"])

lemma stmt_append_Inl: "stmt_append s = Inl (e, sf) \<Longrightarrow> sf = s"
  by (auto simp: stmt_append_def split: option.splits)

lemma stmt_rebind_Inl: "stmt_rebind s = Inl (e, sf) \<Longrightarrow> sf = s"
  by (auto simp: stmt_rebind_def split: option.splits)

text \<open>The first five statements of the body do not assign to \<^verbatim>\<open>proposal\<close>.\<close>

lemma stmt_simulate_proposal: "stmt_simulate L s = Inr s' \<Longrightarrow> proposal s' = proposal s"
  unfolding stmt_simulate_Inr by auto

lemma stmt_train_proposal: "stmt_train L s = Inr s' \<Longrightarrow> proposal s' = proposal s"
  unfolding stmt_train_Inr by auto

lemma stmt_potential_proposal: "stmt_potential L s = Inr s' \<Longrightarrow> proposal s' = proposal s"
  unfolding stmt_potential_Inr by auto

lemma stmt_vi_proposal: "stmt_vi L s = Inr s' \<Longrightarrow> proposal s' = proposal s"
  unfolding stmt_vi_Inr by auto

lemma stmt_append_proposal:
  "(stmt_append s :: ('e, 'w, 'v) run) = Inr s' \<Longrightarrow> proposal s' = proposal s"
  unfolding stmt_append_Inr by auto

section \<open>One round\<close>

text \<open>A round that completes made its six library calls in order, each on the world
  the call before it left, and bound the variables to what they returned.\<close>

lemma round_body_Inr:
  fixes L :: "('e, 'w, 'v) lib"
  assumes "round_body L s = Inr s'"
  shows "\<exists>th xx w1 ob1 w2 le w3 pf tt w4 ob2 w5 p w6.
     simulate_for_sbi L (simulator s) (proposal s) 500 (world s) = Inr ((th, xx), w1) \<and>
     append_simulations L (inference s) th xx w1 = Inr (ob1, w2) \<and>
     train L ob1 w2 = Inr (le, w3) \<and>
     likelihood_estimator_based_potential L le (prior s) (x_o s) w3 = Inr ((pf, tt), w4) \<and>
     VIPosterior L pf (prior s) ''maf'' tt ''fKL'' w4 = Inr (ob2, w5) \<and>
     train L ob2 w5 = Inr (p, w6) \<and>
     s' = s\<lparr>world := w6, posteriors := posteriors s @ [p], proposal := p,
            theta := Some th, x_var := Some xx, likelihood_estimator := Some le,
            potential_fn := Some pf, theta_transform := Some tt, posterior := Some p\<rparr>"
proof -
  from assms obtain a b c d e where
    a: "stmt_simulate L s = Inr a" and b: "stmt_train L a = Inr b" and
    c: "stmt_potential L b = Inr c" and d: "stmt_vi L c = Inr d" and
    e: "(stmt_append d :: ('e, 'w, 'v) run) = Inr e" and f: "(stmt_rebind e :: ('e, 'w, 'v) run) = Inr s'"
    unfolding round_body_def seq_Inr by blast
  from a obtain th xx w1 where
    a1: "simulate_for_sbi L (simulator s) (proposal s) 500 (world s) = Inr ((th, xx), w1)" and
    a2: "a = s\<lparr>world := w1, theta := Some th, x_var := Some xx\<rparr>"
    unfolding stmt_simulate_Inr by blast
  from b obtain ob1 w2 le w3 where
    b1: "append_simulations L (inference s) th xx w1 = Inr (ob1, w2)" and
    b2: "train L ob1 w2 = Inr (le, w3)" and
    b3: "b = a\<lparr>world := w3, likelihood_estimator := Some le\<rparr>"
    unfolding stmt_train_Inr a2 by auto
  from c obtain pf tt w4 where
    c1: "likelihood_estimator_based_potential L le (prior s) (x_o s) w3 = Inr ((pf, tt), w4)" and
    c2: "c = b\<lparr>world := w4, potential_fn := Some pf, theta_transform := Some tt\<rparr>"
    unfolding stmt_potential_Inr b3 a2 by auto
  from d obtain ob2 w5 p w6 where
    d1: "VIPosterior L pf (prior s) ''maf'' tt ''fKL'' w4 = Inr (ob2, w5)" and
    d2: "train L ob2 w5 = Inr (p, w6)" and
    d3: "d = c\<lparr>world := w6, posterior := Some p\<rparr>"
    unfolding stmt_vi_Inr c2 b3 a2 by auto
  from e have e1: "e = d\<lparr>posteriors := posteriors d @ [p]\<rparr>"
    unfolding stmt_append_Inr d3 by auto
  from f have f1: "s' = e\<lparr>proposal := p\<rparr>"
    unfolding stmt_rebind_Inr e1 d3 by auto
  have "s' = s\<lparr>world := w6, posteriors := posteriors s @ [p], proposal := p,
            theta := Some th, x_var := Some xx, likelihood_estimator := Some le,
            potential_fn := Some pf, theta_transform := Some tt, posterior := Some p\<rparr>"
    unfolding f1 e1 d3 c2 b3 a2 by simp
  with a1 b1 b2 c1 d1 d2 show ?thesis by blast
qed

lemma round_body_frame:
  assumes "round_body L s = Inr s'"
  shows "prior s' = prior s \<and> simulator s' = simulator s \<and> inference s' = inference s \<and>
         num_rounds s' = num_rounds s \<and> x_o s' = x_o s \<and>
         posterior_samples s' = posterior_samples s"
  using round_body_Inr[OF assms] by auto

lemma round_body_posteriors:
  assumes "round_body L s = Inr s'"
  shows "\<exists>p. posteriors s' = posteriors s @ [p] \<and> posterior s' = Some p \<and> proposal s' = p"
  using round_body_Inr[OF assms] by auto

lemma round_body_fitted:
  fixes L :: "('e, 'w, 'v) lib"
  assumes "round_body L s = Inr s'"
  shows "\<exists>pf tt wa ob wb.
     VIPosterior L pf (prior s) ''maf'' tt ''fKL'' wa = Inr (ob, wb) \<and>
     train L ob wb = Inr (proposal s', world s')"
proof -
  from round_body_Inr[OF assms] obtain pf tt w4 ob2 w5 p w6 where
    "VIPosterior L pf (prior s) ''maf'' tt ''fKL'' w4 = Inr (ob2, w5)"
    "train L ob2 w5 = Inr (p, w6)" "proposal s' = p" "world s' = w6"
    by auto
  then show ?thesis by metis
qed

lemma round_body_split:
  fixes L :: "('e, 'w, 'v) lib"
  assumes "round_body L s = Inr s'"
  shows "\<exists>m. seq (stmt_simulate L) (seq (stmt_train L) (seq (stmt_potential L)
              (seq (stmt_vi L) stmt_append))) s = Inr m \<and>
            proposal m = proposal s \<and> posterior m = Some (proposal s') \<and>
            s' = m\<lparr>proposal := proposal s'\<rparr>"
proof -
  from assms obtain a b c d m where
    a: "stmt_simulate L s = Inr a" and b: "stmt_train L a = Inr b" and
    c: "stmt_potential L b = Inr c" and d: "stmt_vi L c = Inr d" and
    e: "(stmt_append d :: ('e, 'w, 'v) run) = Inr m" and
    f: "(stmt_rebind m :: ('e, 'w, 'v) run) = Inr s'"
    unfolding round_body_def seq_Inr by blast
  have "seq (stmt_simulate L) (seq (stmt_train L) (seq (stmt_potential L)
          (seq (stmt_vi L) stmt_append))) s = Inr m"
    unfolding seq_Inr using a b c d e by blast
  moreover have "proposal m = proposal s"
    using stmt_simulate_proposal[OF a] stmt_train_proposal[OF b] stmt_potential_proposal[OF c]
      stmt_vi_proposal[OF d] stmt_append_proposal[OF e] by simp
  moreover from f obtain p where "posterior m = Some p" "s' = m\<lparr>proposal := p\<rparr>"
    unfolding stmt_rebind_Inr by blast
  then have "posterior m = Some (proposal s')" "s' = m\<lparr>proposal := proposal s'\<rparr>"
    by simp_all
  ultimately show ?thesis by blast
qed

text \<open>A round that raises has rebound neither \<^verbatim>\<open>proposal\<close> nor \<^verbatim>\<open>posteriors\<close>.\<close>

lemma round_body_Inl_frame:
  fixes L :: "('e, 'w, 'v) lib"
  assumes "round_body L s = Inl (e, sf)"
  shows "proposal sf = proposal s \<and> posteriors sf = posteriors s \<and> prior sf = prior s"
proof -
  have sim: "\<And>a. stmt_simulate L s = Inr a \<Longrightarrow>
      proposal a = proposal s \<and> posteriors a = posteriors s \<and> prior a = prior s"
    unfolding stmt_simulate_Inr by auto
  have tr: "\<And>a b. stmt_train L a = Inr b \<Longrightarrow>
      proposal b = proposal a \<and> posteriors b = posteriors a \<and> prior b = prior a"
    unfolding stmt_train_Inr by auto
  have po: "\<And>a b. stmt_potential L a = Inr b \<Longrightarrow>
      proposal b = proposal a \<and> posteriors b = posteriors a \<and> prior b = prior a"
    unfolding stmt_potential_Inr by auto
  have vi: "\<And>a b. stmt_vi L a = Inr b \<Longrightarrow>
      proposal b = proposal a \<and> posteriors b = posteriors a \<and> prior b = prior a"
    unfolding stmt_vi_Inr by auto
  have ap: "\<And>a b. (stmt_append a :: ('e, 'w, 'v) run) = Inr b \<Longrightarrow> posterior a \<noteq> None"
    unfolding stmt_append_Inr by auto
  have w: "\<And>m w. proposal (m\<lparr>world := w\<rparr>) = proposal m \<and>
      posteriors (m\<lparr>world := w\<rparr>) = posteriors m \<and> prior (m\<lparr>world := w\<rparr>) = prior m"
    by simp
  from assms consider
      (1) "stmt_simulate L s = Inl (e, sf)"
    | (2) a where "stmt_simulate L s = Inr a" "stmt_train L a = Inl (e, sf)"
    | (3) a b where "stmt_simulate L s = Inr a" "stmt_train L a = Inr b"
        "stmt_potential L b = Inl (e, sf)"
    | (4) a b c where "stmt_simulate L s = Inr a" "stmt_train L a = Inr b"
        "stmt_potential L b = Inr c" "stmt_vi L c = Inl (e, sf)"
    | (5) a b c d where "stmt_simulate L s = Inr a" "stmt_train L a = Inr b"
        "stmt_potential L b = Inr c" "stmt_vi L c = Inr d"
        "(stmt_append d :: ('e, 'w, 'v) run) = Inl (e, sf)"
    | (6) a b c d m where "stmt_simulate L s = Inr a" "stmt_train L a = Inr b"
        "stmt_potential L b = Inr c" "stmt_vi L c = Inr d"
        "(stmt_append d :: ('e, 'w, 'v) run) = Inr m"
        "(stmt_rebind m :: ('e, 'w, 'v) run) = Inl (e, sf)"
    unfolding round_body_def seq_Inl by blast
  then show ?thesis
  proof cases
    case 1
    from stmt_simulate_Inl[OF 1] show ?thesis by auto
  next
    case 2
    from stmt_train_Inl[OF 2(2)] sim[OF 2(1)] show ?thesis by auto
  next
    case 3
    from stmt_potential_Inl[OF 3(3)] sim[OF 3(1)] tr[OF 3(2)] show ?thesis by auto
  next
    case 4
    from stmt_vi_Inl[OF 4(4)] sim[OF 4(1)] tr[OF 4(2)] po[OF 4(3)] show ?thesis by auto
  next
    case 5
    from stmt_append_Inl[OF 5(5)] sim[OF 5(1)] tr[OF 5(2)] po[OF 5(3)] vi[OF 5(4)]
    show ?thesis by auto
  next
    case 6
    from 6(5) have "posterior m \<noteq> None" unfolding stmt_append_Inr by auto
    with 6(6) show ?thesis by (auto simp: stmt_rebind_def split: option.splits)
  qed
qed

section \<open>The loop\<close>

lemma round_loop_snoc:
  "round_loop L (Suc k) s =
     (case round_loop L k s of Inl failure \<Rightarrow> Inl failure | Inr m \<Rightarrow> round_body L m)"
proof (induction k arbitrary: s)
  case 0
  show ?case by (simp split: sum.splits)
next
  case (Suc k)
  show ?case
  proof (cases "round_body L s")
    case (Inl failure)
    then show ?thesis by simp
  next
    case (Inr s1)
    have "round_loop L (Suc (Suc k)) s = round_loop L (Suc k) s1"
      using Inr by simp
    also have "\<dots> = (case round_loop L k s1 of Inl failure \<Rightarrow> Inl failure | Inr m \<Rightarrow> round_body L m)"
      by (rule Suc.IH)
    also have "round_loop L k s1 = round_loop L (Suc k) s"
      using Inr by simp
    finally show ?thesis .
  qed
qed

lemma round_loop_Suc_Inr:
  "round_loop L (Suc k) s = Inr s' \<longleftrightarrow>
     (\<exists>m. round_loop L k s = Inr m \<and> round_body L m = Inr s')"
  unfolding round_loop_snoc by (auto split: sum.splits)

lemma round_loop_split:
  "round_loop L (j + k) s = Inr s' \<longleftrightarrow> (\<exists>m. round_loop L j s = Inr m \<and> round_loop L k m = Inr s')"
  by (induction j arbitrary: s) (auto split: sum.splits)

lemma round_loop_frame:
  "round_loop L k s = Inr s' \<Longrightarrow>
     prior s' = prior s \<and> simulator s' = simulator s \<and> inference s' = inference s \<and>
     num_rounds s' = num_rounds s \<and> x_o s' = x_o s \<and> posterior_samples s' = posterior_samples s"
proof (induction k arbitrary: s)
  case 0
  then show ?case by simp
next
  case (Suc k)
  then obtain m where m: "round_body L s = Inr m" and r: "round_loop L k m = Inr s'"
    by (auto split: sum.splits)
  from round_body_frame[OF m] Suc.IH[OF r] show ?case by simp
qed

lemma round_loop_posteriors:
  "round_loop L k s = Inr s' \<Longrightarrow>
     \<exists>ps. posteriors s' = posteriors s @ ps \<and> length ps = k \<and>
       (0 < k \<longrightarrow> posterior s' = Some (last ps) \<and> proposal s' = last ps)"
proof (induction k arbitrary: s')
  case 0
  then show ?case by simp
next
  case (Suc k)
  from Suc.prems obtain m where m: "round_loop L k s = Inr m" and b: "round_body L m = Inr s'"
    unfolding round_loop_snoc by (auto split: sum.splits)
  from Suc.IH[OF m] obtain ps where ps: "posteriors m = posteriors s @ ps" "length ps = k"
    by blast
  from round_body_posteriors[OF b] obtain p where
    p: "posteriors s' = posteriors m @ [p]" "posterior s' = Some p" "proposal s' = p"
    by blast
  have "posteriors s' = posteriors s @ (ps @ [p])" using ps p by simp
  moreover have "length (ps @ [p]) = Suc k" using ps by simp
  moreover have "posterior s' = Some (last (ps @ [p]))" "proposal s' = last (ps @ [p])"
    using p by simp_all
  ultimately show ?case by blast
qed

lemma cell_prelude_fields:
  "proposal (cell_prelude L nr s0) = prior s0" "prior (cell_prelude L nr s0) = prior s0"
  "posteriors (cell_prelude L nr s0) = []" "num_rounds (cell_prelude L nr s0) = nr"
  by (simp_all add: cell_prelude_def)

section \<open>The cumulative batch over the rounds\<close>

lemma append_rounds_concat: "append_rounds c bs = c @ concat bs"
  by (induction bs arbitrary: c) (simp_all add: append_batch_def)

lemma length_concat_uniform:
  "(\<forall>b \<in> set bs. length b = n) \<Longrightarrow> length (concat bs) = length bs * n"
  by (induction bs) simp_all

lemma contract_simulate:
  "trainer_contract L trainer held pairs \<Longrightarrow>
   simulate_for_sbi L sim prop n w = Inr ((th, xx), w') \<Longrightarrow>
   length (pairs th xx) = n \<and> held w' = held w"
  unfolding trainer_contract_def by metis

lemma contract_append:
  "trainer_contract L trainer held pairs \<Longrightarrow>
   append_simulations L trainer th xx w = Inr (ob, w') \<Longrightarrow>
   held w' = append_batch (held w) (pairs th xx)"
  unfolding trainer_contract_def by metis

lemma contract_train:
  "trainer_contract L trainer held pairs \<Longrightarrow> train L ob w = Inr (r, w') \<Longrightarrow> held w' = held w"
  unfolding trainer_contract_def by metis

lemma contract_potential:
  "trainer_contract L trainer held pairs \<Longrightarrow>
   likelihood_estimator_based_potential L le pr xo w = Inr (r, w') \<Longrightarrow> held w' = held w"
  unfolding trainer_contract_def by metis

lemma contract_VIPosterior:
  "trainer_contract L trainer held pairs \<Longrightarrow>
   VIPosterior L pf pr family tt vi_method w = Inr (ob, w') \<Longrightarrow> held w' = held w"
  unfolding trainer_contract_def by metis

lemma round_body_held:
  fixes L :: "('e, 'w, 'v) lib"
  assumes c: "trainer_contract L (inference s) held pairs" and b: "round_body L s = Inr s'"
  shows "\<exists>new. length new = 500 \<and> held (world s') = append_batch (held (world s)) new"
proof -
  from round_body_Inr[OF b] obtain th xx w1 ob1 w2 le w3 pf tt w4 ob2 w5 p w6 where
    sim: "simulate_for_sbi L (simulator s) (proposal s) 500 (world s) = Inr ((th, xx), w1)" and
    app: "append_simulations L (inference s) th xx w1 = Inr (ob1, w2)" and
    tr: "train L ob1 w2 = Inr (le, w3)" and
    pot: "likelihood_estimator_based_potential L le (prior s) (x_o s) w3 = Inr ((pf, tt), w4)" and
    vi: "VIPosterior L pf (prior s) ''maf'' tt ''fKL'' w4 = Inr (ob2, w5)" and
    fit: "train L ob2 w5 = Inr (p, w6)" and
    w: "world s' = w6"
    by auto
  from contract_simulate[OF c sim] have 1: "length (pairs th xx) = 500" "held w1 = held (world s)"
    by simp_all
  from contract_append[OF c app] have 2: "held w2 = append_batch (held w1) (pairs th xx)" .
  from contract_train[OF c tr] have 3: "held w3 = held w2" .
  from contract_potential[OF c pot] have 4: "held w4 = held w3" .
  from contract_VIPosterior[OF c vi] have 5: "held w5 = held w4" .
  from contract_train[OF c fit] have 6: "held w6 = held w5" .
  from 1 2 3 4 5 6 w show ?thesis by auto
qed

lemma round_loop_held:
  fixes L :: "('e, 'w, 'v) lib"
  assumes "trainer_contract L (inference s) held pairs" and "round_loop L r s = Inr s'"
  shows "\<exists>batches. length batches = r \<and> (\<forall>b \<in> set batches. length b = 500) \<and>
           held (world s') = append_rounds (held (world s)) batches"
  using assms
proof (induction r arbitrary: s)
  case 0
  then show ?case by simp
next
  case (Suc r)
  from Suc.prems(2) obtain m where m: "round_body L s = Inr m" and rest: "round_loop L r m = Inr s'"
    by (auto split: sum.splits)
  from round_body_held[OF Suc.prems(1) m] obtain new where
    new: "length new = 500" "held (world m) = append_batch (held (world s)) new"
    by blast
  from round_body_frame[OF m] Suc.prems(1) have "trainer_contract L (inference m) held pairs"
    by simp
  from Suc.IH[OF this rest] obtain bs where
    bs: "length bs = r" "\<forall>b \<in> set bs. length b = 500"
      "held (world s') = append_rounds (held (world m)) bs"
    by blast
  have "length (new # bs) = Suc r" "\<forall>b \<in> set (new # bs). length b = 500"
    "held (world s') = append_rounds (held (world s)) (new # bs)"
    using new bs by simp_all
  then show ?case by blast
qed

section \<open>The loop on the small library\<close>

lemma demo_calls:
  "torch_zeros demo_lib n = replicate n 0"
  "simulate_for_sbi demo_lib sim prop n (k, c) =
     (if sim = [] then Inl (Raised (), (k, c))
      else Inr ((replicate n k, replicate n (Suc k)), (k + 2, c)))"
  "append_simulations demo_lib ob th xx (k, c) = Inr (ob, (k, c @ zip th xx))"
  "train demo_lib ob (k, c) = Inr ([k], (Suc k, c))"
  "likelihood_estimator_based_potential demo_lib le pr xo (k, c) = Inr (([k], [Suc k]), (k + 2, c))"
  "VIPosterior demo_lib pf pr family tt vi_method (k, c) = Inr ([k], (Suc k, c))"
  "sample demo_lib p shape xo (k, c) = Inr ([k], (Suc k, c))"
  by (simp_all add: demo_lib_def)

lemma demo_prelude:
  "cell_prelude demo_lib 2 demo_start =
     \<lparr>world = (10, []), prior = [1], simulator = [2], inference = [3], num_rounds = 2,
      x_o = [0, 0, 0], posteriors = [], proposal = [1], theta = None, x_var = None,
      likelihood_estimator = None, potential_fn = None, theta_transform = None,
      posterior = None, posterior_samples = None\<rparr>"
  by (simp add: cell_prelude_def demo_start_def demo_calls eval_nat_numeral)

lemma demo_round_1: "round_body demo_lib (cell_prelude demo_lib 2 demo_start) = Inr demo_mid"
  unfolding demo_prelude
  by (simp add: round_body_def seq_def stmt_simulate_def stmt_train_def stmt_potential_def
      stmt_vi_def stmt_append_def stmt_rebind_def demo_calls demo_mid_def)

lemma demo_round_2: "round_body demo_lib demo_mid = Inr demo_end"
  by (simp add: round_body_def seq_def stmt_simulate_def stmt_train_def stmt_potential_def
      stmt_vi_def stmt_append_def stmt_rebind_def demo_calls demo_mid_def demo_end_def)

lemma demo_loop_1: "round_loop demo_lib (Suc 0) (cell_prelude demo_lib 2 demo_start) = Inr demo_mid"
  by (simp add: demo_round_1)

lemma demo_loop_2:
  "round_loop demo_lib (Suc (Suc 0)) (cell_prelude demo_lib 2 demo_start) = Inr demo_end"
  by (simp add: demo_round_1 demo_round_2)

lemma demo_cell: "rounds_cell_with demo_lib 2 demo_start = Inr demo_end"
  using demo_loop_2 by (simp add: rounds_cell_with_def cell_prelude_fields eval_nat_numeral)

lemma demo_failing_round:
  "round_body demo_lib (demo_mid\<lparr>simulator := []\<rparr>) =
     Inl (Raised (), demo_mid\<lparr>simulator := []\<rparr>)"
  by (simp add: round_body_def seq_def stmt_simulate_def demo_calls demo_mid_def)

lemma demo_contract: "trainer_contract demo_lib [3] snd zip"
  by (auto simp: trainer_contract_def demo_lib_def append_batch_def split: if_splits)

section \<open>The claims\<close>

text \<open>
  Claim C1. For every number of rounds and every number of simulations a round, the
  cumulative SimulationBatch the trainer holds after the rounds of \<^verbatim>\<open>append(batch)\<close> is
  the batches one after the other, nothing dropped and nothing merged: \<open>k\<close> batches of \<open>n\<close>
  pairs each give \<open>k * n\<close> pairs, and so do the first \<open>k\<close> of them at every point on the
  way. In the notebook's loop, on a library that keeps \<open>trainer_contract\<close>, \<open>r\<close>
  completed rounds have appended \<open>r\<close> batches of 500 pairs to what the inference object
  held: \<open>r * 500\<close> pairs more, and \<open>r * 500\<close> pairs in all when it held none.
\<close>

theorem cumulative_batch_size:
  fixes L :: "('e, 'w, 'v) lib"
  shows
  "((\<forall>b \<in> set bs. length b = n) \<longrightarrow>
      append_rounds c bs = c @ concat bs \<and>
      length (append_rounds [] bs) = length bs * n \<and>
      (\<forall>k \<le> length bs. length (append_rounds [] (take k bs)) = k * n)) \<and>
   (trainer_contract L (inference s) held pairs \<and> round_loop L r s = Inr s' \<longrightarrow>
      (\<exists>batches. length batches = r \<and> (\<forall>b \<in> set batches. length b = 500) \<and>
         held (world s') = append_rounds (held (world s)) batches) \<and>
      length (held (world s')) = length (held (world s)) + r * 500 \<and>
      (if held (world s) = [] then length (held (world s')) = r * 500
       else r * 500 < length (held (world s'))))"
proof (intro conjI impI allI)
  show "append_rounds c bs = c @ concat bs" by (rule append_rounds_concat)
next
  assume "\<forall>b \<in> set bs. length b = n"
  then show "length (append_rounds [] bs) = length bs * n"
    by (simp add: append_rounds_concat length_concat_uniform)
next
  fix k
  assume u: "\<forall>b \<in> set bs. length b = n" and k: "k \<le> length bs"
  from u have "\<forall>b \<in> set (take k bs). length b = n" by (auto dest: in_set_takeD)
  from length_concat_uniform[OF this] k
  show "length (append_rounds [] (take k bs)) = k * n"
    by (simp add: append_rounds_concat)
next
  assume a: "trainer_contract L (inference s) held pairs \<and> round_loop L r s = Inr s'"
  then show "\<exists>batches. length batches = r \<and> (\<forall>b \<in> set batches. length b = 500) \<and>
         held (world s') = append_rounds (held (world s)) batches"
    using round_loop_held by blast
next
  assume a: "trainer_contract L (inference s) held pairs \<and> round_loop L r s = Inr s'"
  with round_loop_held[of L s held pairs r s'] obtain batches where
    b: "length batches = r" "\<forall>b \<in> set batches. length b = 500"
       "held (world s') = append_rounds (held (world s)) batches"
    by blast
  from length_concat_uniform[OF b(2)] b(1,3)
  show "length (held (world s')) = length (held (world s)) + r * 500"
    by (simp add: append_rounds_concat)
next
  assume a: "trainer_contract L (inference s) held pairs \<and> round_loop L r s = Inr s'"
  with round_loop_held[of L s held pairs r s'] obtain batches where
    b: "length batches = r" "\<forall>b \<in> set batches. length b = 500"
       "held (world s') = append_rounds (held (world s)) batches"
    by blast
  from length_concat_uniform[OF b(2)] b(1,3)
  have "length (held (world s')) = length (held (world s)) + r * 500"
    by (simp add: append_rounds_concat)
  then show "if held (world s) = [] then length (held (world s')) = r * 500
       else r * 500 < length (held (world s'))"
    by (cases "held (world s)") simp_all
qed

theorem cumulative_batch_size_witness:
  "map length [[(1::nat, 2::nat), (3, 4)], [(5, 6), (7, 8)]] = [2, 2] \<and>
   append_rounds [] [[(1::nat, 2::nat), (3, 4)], [(5, 6), (7, 8)]] = [(1, 2), (3, 4), (5, 6), (7, 8)] \<and>
   length (append_rounds [] [[(1::nat, 2::nat), (3, 4)], [(5, 6), (7, 8)]]) = 4 \<and>
   trainer_contract demo_lib (inference (cell_prelude demo_lib 2 demo_start)) snd zip \<and>
   round_loop demo_lib 2 (cell_prelude demo_lib 2 demo_start) = Inr demo_end \<and>
   snd (world (cell_prelude demo_lib 2 demo_start)) = [] \<and>
   length (snd (world demo_end)) = 2 * 500"
proof -
  have u: "\<forall>b \<in> set [[(1::nat, 2::nat), (3, 4)], [(5, 6), (7, 8)]]. length b = 2" by simp
  have i: "inference (cell_prelude demo_lib 2 demo_start) = [3]"
    "snd (world (cell_prelude demo_lib 2 demo_start)) = []"
    by (simp_all add: demo_prelude)
  have l: "round_loop demo_lib 2 (cell_prelude demo_lib 2 demo_start) = Inr demo_end"
    using demo_loop_2 by (simp add: eval_nat_numeral)
  from cumulative_batch_size[of "[[(1::nat, 2::nat), (3, 4)], [(5, 6), (7, 8)]]" 2 "[]"
      demo_lib "cell_prelude demo_lib 2 demo_start" snd zip 2 demo_end] u i l demo_contract
  show ?thesis by simp
qed

text \<open>
  Claim C2. The life of \<^verbatim>\<open>proposal\<close> over the loop. When the loop starts it is the prior
  (the value \<^verbatim>\<open>prior\<close> is bound to when the cell runs). Round \<open>r + 1\<close> starts in the
  namespace \<open>s\<close> the first \<open>r\<close> rounds left: there \<^verbatim>\<open>proposal\<close> is the prior when
  \<open>r = 0\<close>, and otherwise the value \<^verbatim>\<open>posterior\<close> holds, which \<^verbatim>\<open>train\<close> returned on
  the object \<^verbatim>\<open>VIPosterior(...)\<close> built in round \<open>r\<close>. The round draws its simulations
  with that proposal, keeps it through its first five statements, and its last
  statement rebinds it to the posterior the round has fitted. A round that raises
  leaves \<^verbatim>\<open>proposal\<close> as it was.
\<close>

theorem proposal_lifecycle:
  fixes L :: "('e, 'w, 'v) lib"
  shows
  "proposal (cell_prelude L nr s0) = prior s0 \<and>
   (round_loop L (Suc r) (cell_prelude L nr s0) = Inr s' \<longrightarrow>
      (\<exists>s. round_loop L r (cell_prelude L nr s0) = Inr s \<and> round_body L s = Inr s' \<and>
         (if r = 0 then proposal s = prior s0
          else posterior s = Some (proposal s) \<and>
               (\<exists>pf tt wa ob wb.
                  VIPosterior L pf (prior s0) ''maf'' tt ''fKL'' wa = Inr (ob, wb) \<and>
                  train L ob wb = Inr (proposal s, world s))) \<and>
         (\<exists>th xx w.
            simulate_for_sbi L (simulator s) (proposal s) 500 (world s) = Inr ((th, xx), w) \<and>
            theta s' = Some th \<and> x_var s' = Some xx) \<and>
         (\<exists>m. seq (stmt_simulate L) (seq (stmt_train L) (seq (stmt_potential L)
                 (seq (stmt_vi L) stmt_append))) s = Inr m \<and>
               proposal m = proposal s \<and> posterior m = Some (proposal s') \<and>
               s' = m\<lparr>proposal := proposal s'\<rparr>) \<and>
         (\<exists>pf tt wa ob wb.
            VIPosterior L pf (prior s0) ''maf'' tt ''fKL'' wa = Inr (ob, wb) \<and>
            train L ob wb = Inr (proposal s', world s')) \<and>
         posterior s' = Some (proposal s'))) \<and>
   (round_body L s1 = Inl (e, sf) \<longrightarrow> proposal sf = proposal s1)"
proof (intro conjI impI)
  show "proposal (cell_prelude L nr s0) = prior s0"
    by (rule cell_prelude_fields)
next
  assume "round_body L s1 = Inl (e, sf)"
  from round_body_Inl_frame[OF this] show "proposal sf = proposal s1" by simp
next
  let ?start = "cell_prelude L nr s0"
  have fitted: "\<exists>pf tt wa ob wb.
        VIPosterior L pf (prior s0) ''maf'' tt ''fKL'' wa = Inr (ob, wb) \<and>
        train L ob wb = Inr (proposal b, world b)"
    if k: "round_loop L k ?start = Inr a" and body: "round_body L a = Inr b" for k a b
  proof -
    from round_loop_frame[OF k] have "prior a = prior s0"
      by (simp add: cell_prelude_fields)
    with round_body_fitted[OF body] show ?thesis by simp
  qed
  assume run: "round_loop L (Suc r) ?start = Inr s'"
  then obtain s where s: "round_loop L r ?start = Inr s" and body: "round_body L s = Inr s'"
    unfolding round_loop_Suc_Inr by blast
  have before: "if r = 0 then proposal s = prior s0
          else posterior s = Some (proposal s) \<and>
               (\<exists>pf tt wa ob wb.
                  VIPosterior L pf (prior s0) ''maf'' tt ''fKL'' wa = Inr (ob, wb) \<and>
                  train L ob wb = Inr (proposal s, world s))"
  proof (cases r)
    case 0
    with s have "s = cell_prelude L nr s0" by simp
    with 0 show ?thesis by (simp add: cell_prelude_fields)
  next
    case (Suc q)
    with s have "round_loop L (Suc q) ?start = Inr s" by simp
    then obtain a where a: "round_loop L q ?start = Inr a" and ab: "round_body L a = Inr s"
      unfolding round_loop_Suc_Inr by blast
    from round_body_posteriors[OF ab] have "posterior s = Some (proposal s)" by auto
    with fitted[OF a ab] Suc show ?thesis by simp
  qed
  have draw: "\<exists>th xx w.
      simulate_for_sbi L (simulator s) (proposal s) 500 (world s) = Inr ((th, xx), w) \<and>
      theta s' = Some th \<and> x_var s' = Some xx"
    using round_body_Inr[OF body] by auto
  have last: "posterior s' = Some (proposal s')"
    using round_body_posteriors[OF body] by auto
  from s body before draw round_body_split[OF body] fitted[OF s body] last
  show "\<exists>s. round_loop L r ?start = Inr s \<and> round_body L s = Inr s' \<and>
         (if r = 0 then proposal s = prior s0
          else posterior s = Some (proposal s) \<and>
               (\<exists>pf tt wa ob wb.
                  VIPosterior L pf (prior s0) ''maf'' tt ''fKL'' wa = Inr (ob, wb) \<and>
                  train L ob wb = Inr (proposal s, world s))) \<and>
         (\<exists>th xx w.
            simulate_for_sbi L (simulator s) (proposal s) 500 (world s) = Inr ((th, xx), w) \<and>
            theta s' = Some th \<and> x_var s' = Some xx) \<and>
         (\<exists>m. seq (stmt_simulate L) (seq (stmt_train L) (seq (stmt_potential L)
                 (seq (stmt_vi L) stmt_append))) s = Inr m \<and>
               proposal m = proposal s \<and> posterior m = Some (proposal s') \<and>
               s' = m\<lparr>proposal := proposal s'\<rparr>) \<and>
         (\<exists>pf tt wa ob wb.
            VIPosterior L pf (prior s0) ''maf'' tt ''fKL'' wa = Inr (ob, wb) \<and>
            train L ob wb = Inr (proposal s', world s')) \<and>
         posterior s' = Some (proposal s')"
    by (rule_tac x = s in exI) (intro conjI, assumption+)
qed

theorem proposal_lifecycle_witness:
  "proposal (cell_prelude demo_lib 2 demo_start) = prior demo_start \<and>
   round_loop demo_lib (Suc 1) (cell_prelude demo_lib 2 demo_start) = Inr demo_end \<and>
   round_loop demo_lib 1 (cell_prelude demo_lib 2 demo_start) = Inr demo_mid \<and>
   round_body demo_lib demo_mid = Inr demo_end \<and>
   posterior demo_mid = Some (proposal demo_mid) \<and>
   posterior demo_end = Some (proposal demo_end) \<and>
   round_body demo_lib (demo_mid\<lparr>simulator := []\<rparr>) =
     Inl (Raised (), demo_mid\<lparr>simulator := []\<rparr>) \<and>
   proposal (demo_mid\<lparr>simulator := []\<rparr>) = proposal demo_mid"
  using proposal_lifecycle[of demo_lib 2 demo_start 1 demo_end "demo_mid\<lparr>simulator := []\<rparr>"
      "Raised ()" "demo_mid\<lparr>simulator := []\<rparr>"]
    demo_loop_1 demo_loop_2 demo_round_2 demo_failing_round
  by (simp add: cell_prelude_fields)

text \<open>
  Claim C10. When the loop cell completes, \<^verbatim>\<open>posteriors\<close> has one entry for every
  round. With at least one round, entry \<open>r\<close> is the posterior round \<open>r + 1\<close> fitted (the
  value \<^verbatim>\<open>train\<close> returned on that round's \<^verbatim>\<open>VIPosterior(...)\<close> object, which
  \<^verbatim>\<open>posterior\<close> held when the round ended), and \<^verbatim>\<open>proposal\<close>, \<^verbatim>\<open>posterior\<close> and
  \<^verbatim>\<open>posteriors[num_rounds-1]\<close> are one and the same object, the one the next cell
  samples at \<^verbatim>\<open>x_o\<close>. With no round the list is empty and \<^verbatim>\<open>posterior\<close> is unbound.
\<close>

theorem posteriors_retained:
  fixes L :: "('e, 'w, 'v) lib"
  assumes "rounds_cell_with L nr s0 = Inr s"
  shows "length (posteriors s) = nat nr \<and> num_rounds s = nr \<and>
    (0 < nr \<longrightarrow>
       (\<forall>r < nat nr. \<exists>sq sr.
           round_loop L r (cell_prelude L nr s0) = Inr sq \<and> round_body L sq = Inr sr \<and>
           posterior sr = Some (posteriors s ! r) \<and>
           (\<exists>pf tt wa ob wb.
              VIPosterior L pf (prior s0) ''maf'' tt ''fKL'' wa = Inr (ob, wb) \<and>
              train L ob wb = Inr (posteriors s ! r, world sr))) \<and>
       proposal s = posteriors s ! nat (num_rounds s - 1) \<and>
       posterior s = Some (posteriors s ! nat (num_rounds s - 1)) \<and>
       sample_cell L s =
         (case sample L (posteriors s ! nat (num_rounds s - 1)) [10000] (x_o s) (world s) of
            Inl (e, w) \<Rightarrow> Inl (e, s\<lparr>world := w\<rparr>)
          | Inr (r, w) \<Rightarrow> Inr (s\<lparr>world := w, posterior_samples := Some r\<rparr>)))"
proof -
  let ?start = "cell_prelude L nr s0"
  let ?k = "nat nr"
  from assms have run: "round_loop L ?k ?start = Inr s"
    by (simp add: rounds_cell_with_def cell_prelude_fields)
  from round_loop_posteriors[OF run] obtain ps where
    ps: "posteriors s = ps" "length ps = ?k"
    and lst: "0 < ?k \<longrightarrow> posterior s = Some (last ps) \<and> proposal s = last ps"
    by (auto simp: cell_prelude_fields)
  have len: "length (posteriors s) = ?k" using ps by simp
  have nr: "num_rounds s = nr"
    using round_loop_frame[OF run] by (simp add: cell_prelude_fields)
  have order: "\<exists>sq sr. round_loop L r ?start = Inr sq \<and> round_body L sq = Inr sr \<and>
           posterior sr = Some (posteriors s ! r) \<and>
           (\<exists>pf tt wa ob wb.
              VIPosterior L pf (prior s0) ''maf'' tt ''fKL'' wa = Inr (ob, wb) \<and>
              train L ob wb = Inr (posteriors s ! r, world sr))" if r: "r < ?k" for r
  proof -
    from r have "?k = Suc r + (?k - Suc r)" by simp
    with run have "round_loop L (Suc r + (?k - Suc r)) ?start = Inr s" by simp
    then obtain sr where sr: "round_loop L (Suc r) ?start = Inr sr"
      and rest: "round_loop L (?k - Suc r) sr = Inr s"
      unfolding round_loop_split by blast
    from sr obtain sq where sq: "round_loop L r ?start = Inr sq" and b: "round_body L sq = Inr sr"
      unfolding round_loop_Suc_Inr by blast
    from round_loop_posteriors[OF sr] obtain p1 where
      p1: "posteriors sr = p1" "length p1 = Suc r" "posterior sr = Some (last p1)"
      by (auto simp: cell_prelude_fields)
    from round_loop_posteriors[OF rest] obtain p2 where p2: "posteriors s = posteriors sr @ p2"
      by blast
    have "posteriors s ! r = p1 ! r" using p1 p2 by (simp add: nth_append)
    also have "\<dots> = last p1" using p1(2) by (cases p1 rule: rev_cases) (auto simp: nth_append)
    finally have entry: "posterior sr = Some (posteriors s ! r)" using p1(3) by simp
    from round_body_posteriors[OF b] entry have "proposal sr = posteriors s ! r" by auto
    moreover from round_loop_frame[OF sq] have "prior sq = prior s0"
      by (simp add: cell_prelude_fields)
    ultimately have "\<exists>pf tt wa ob wb.
        VIPosterior L pf (prior s0) ''maf'' tt ''fKL'' wa = Inr (ob, wb) \<and>
        train L ob wb = Inr (posteriors s ! r, world sr)"
      using round_body_fitted[OF b] by simp
    with sq b entry show ?thesis by blast
  qed
  have final: "proposal s = posteriors s ! nat (num_rounds s - 1) \<and>
       posterior s = Some (posteriors s ! nat (num_rounds s - 1))" if pos: "0 < nr"
  proof -
    from pos have k: "0 < ?k" "nat (nr - 1) = ?k - 1" by simp_all
    from k ps have "last ps = posteriors s ! nat (num_rounds s - 1)"
      by (cases ps rule: rev_cases) (auto simp: nr nth_append)
    with lst k show ?thesis by simp
  qed
  have smp: "sample_cell L s =
         (case sample L (posteriors s ! nat (num_rounds s - 1)) [10000] (x_o s) (world s) of
            Inl (e, w) \<Rightarrow> Inl (e, s\<lparr>world := w\<rparr>)
          | Inr (r, w) \<Rightarrow> Inr (s\<lparr>world := w, posterior_samples := Some r\<rparr>))" if pos: "0 < nr"
    using final[OF pos] by (simp add: sample_cell_def)
  from len nr order final smp show ?thesis by blast
qed

theorem posteriors_retained_witness:
  "rounds_cell demo_lib demo_start = Inr demo_end \<and>
   length (posteriors demo_end) = 2 \<and> posteriors demo_end = [[16], [23]] \<and>
   round_loop demo_lib 1 (cell_prelude demo_lib 2 demo_start) = Inr demo_mid \<and>
   posterior demo_mid = Some (posteriors demo_end ! 0) \<and>
   proposal demo_end = posteriors demo_end ! 1 \<and>
   posterior demo_end = Some (posteriors demo_end ! 1) \<and>
   sample_cell demo_lib demo_end =
     Inr (demo_end\<lparr>world := (25, replicate 500 (10, 11) @ replicate 500 (17, 18)),
                   posterior_samples := Some [24]\<rparr>)"
proof -
  have "posteriors demo_end = [[16], [23]]" "world demo_end = (24, replicate 500 (10, 11) @ replicate 500 (17, 18))"
    "posterior demo_mid = Some [16]"
    by (simp_all add: demo_end_def demo_mid_def)
  with posteriors_retained[OF demo_cell] demo_cell demo_loop_1 show ?thesis
    by (simp add: demo_calls rounds_cell_def)
qed

end
